theory Spec2Isabelle
  imports Main
begin

section \<open>The microphone visualizer panel\<close>

text \<open>
  The repository holds one React component, \<open>MicrophoneVisualizer\<close>, in two variants:
  the richer one (\<open>src/components/MicrophoneVisualizer.tsx\<close>) with theme and waveform-style
  buttons, and a simpler one with theme buttons only. The component keeps three refs
  (the DOM container, the visualizer instance, the record plugin) and React state
  (\<open>isRecording\<close>, \<open>currentTheme\<close>, \<open>currentWaveform\<close>), and drives the external
  wavesurfer library.

  The embedding is state passing. One record holds the refs, the React state and
  everything the component can touch outside itself: the library's instances, the
  toasts shown and the console. An event handler is a function from panel to panel that
  runs the handler, its awaited continuation, the re-render it schedules and the effects
  of that re-render, in the order React runs them. A closure of a render reads the state
  of that render, which is the panel record the effect or handler is applied to.
  Handlers run one after another, as the spec has it ("awaited sequentially; no parallel
  operations"): a click is not taken while the promise of an earlier one is pending.
\<close>

subsection \<open>Option objects\<close>

text \<open>
  A JavaScript options object has each key present or absent; a field is \<open>Some v\<close> when
  the key is present. The presets, the argument of \<open>WaveSurfer.create\<close>, the argument of
  \<open>setOptions\<close> and the options an instance holds are all such objects.
\<close>

record options =
  container :: "unit option"
  waveColor :: "string option"
  progressColor :: "string option"
  cursorColor :: "string option"
  height :: "nat option"
  barWidth :: "nat option"
  barGap :: "nat option"
  barRadius :: "nat option"
  wave :: "bool option"

definition no_options :: options where
  "no_options = \<lparr>container = None, waveColor = None, progressColor = None,
     cursorColor = None, height = None, barWidth = None, barGap = None,
     barRadius = None, wave = None\<rparr>"

text \<open>Object spread and \<open>Object.assign\<close>: the keys present in \<open>b\<close> override those of \<open>a\<close>.\<close>

definition override :: "'a option \<Rightarrow> 'a option \<Rightarrow> 'a option" where
  "override a b = (case b of None \<Rightarrow> a | Some v \<Rightarrow> Some v)"

definition assign :: "options \<Rightarrow> options \<Rightarrow> options" where
  "assign a b = \<lparr>container = override (container a) (container b),
     waveColor = override (waveColor a) (waveColor b),
     progressColor = override (progressColor a) (progressColor b),
     cursorColor = override (cursorColor a) (cursorColor b),
     height = override (height a) (height b),
     barWidth = override (barWidth a) (barWidth b),
     barGap = override (barGap a) (barGap b),
     barRadius = override (barRadius a) (barRadius b),
     wave = override (wave a) (wave b)\<rparr>"

subsection \<open>Themes and waveform styles\<close>

datatype theme = classic | neon | sunset

datatype waveform = bars | line | points | rounded

text \<open>\<open>Object.keys(visualizerThemes)\<close> and \<open>Object.keys(waveformTypes)\<close>, in insertion order.\<close>

definition theme_keys :: "theme list" where
  "theme_keys = [classic, neon, sunset]"

definition waveform_keys :: "waveform list" where
  "waveform_keys = [bars, line, points, rounded]"

fun visualizerThemes :: "theme \<Rightarrow> options" where
  "visualizerThemes classic = no_options\<lparr>waveColor := Some ''#9b87f5'',
     progressColor := Some ''#7E69AB'', cursorColor := Some ''transparent''\<rparr>"
| "visualizerThemes neon = no_options\<lparr>waveColor := Some ''#33C3F0'',
     progressColor := Some ''#0EA5E9'', cursorColor := Some ''transparent''\<rparr>"
| "visualizerThemes sunset = no_options\<lparr>waveColor := Some ''#F97316'',
     progressColor := Some ''#D946EF'', cursorColor := Some ''transparent''\<rparr>"

fun waveformTypes :: "waveform \<Rightarrow> options" where
  "waveformTypes bars = no_options\<lparr>barWidth := Some 2, barGap := Some 3,
     barRadius := Some 3, wave := Some False\<rparr>"
| "waveformTypes line = no_options\<lparr>barWidth := Some 0, wave := Some True\<rparr>"
| "waveformTypes points = no_options\<lparr>barWidth := Some 1, barGap := Some 4,
     barRadius := Some 50, wave := Some False\<rparr>"
| "waveformTypes rounded = no_options\<lparr>barWidth := Some 3, barGap := Some 2,
     barRadius := Some 30, wave := Some False\<rparr>"

subsection \<open>The library, as the component sees it\<close>

text \<open>
  Modelled from the spec: the wavesurfer library, which the component consumes and the
  repository does not define. An instance is known to the component by the options it
  holds, by whether it has been destroyed, by whether a record plugin is registered on
  it and by whether that plugin is capturing the microphone. Instances are numbered in
  creation order; the record plugin is named by the instance it is registered on.
  \<open>setOptions\<close> merges the keys it is given into the options of the instance; destroying
  an instance tears down its plugin with it. The library also keeps the list of the
  calls made to it, in order.

  Whether the plugin's \<open>startRecording\<close> promise resolves or rejects is decided by the
  browser and the user; it is an input of every handler that may call it.
\<close>

datatype js_error = NotAllowedError | NotFoundError | TypeError

datatype mic_result = Granted | Rejected js_error

record ws_instance =
  opts :: options
  destroyed :: bool
  recordPlugin :: bool
  micActive :: bool

datatype call =
    Create nat options
  | Destroy nat
  | RegisterPlugin nat
  | SetOptions nat options
  | StartRecording nat mic_result
  | StopRecording nat

record library =
  insts :: "ws_instance list"
  calls :: "call list"

fun modify :: "nat \<Rightarrow> (ws_instance \<Rightarrow> ws_instance) \<Rightarrow> ws_instance list \<Rightarrow> ws_instance list" where
  "modify i f [] = []"
| "modify 0 f (x # xs) = f x # xs"
| "modify (Suc i) f (x # xs) = x # modify i f xs"

definition WaveSurfer_create :: "options \<Rightarrow> library \<Rightarrow> nat \<times> library" where
  "WaveSurfer_create o' L =
     (length (insts L),
      \<lparr>insts = insts L @
         [\<lparr>opts = o', destroyed = False, recordPlugin = False, micActive = False\<rparr>],
       calls = calls L @ [Create (length (insts L)) o']\<rparr>)"

definition WaveSurfer_destroy :: "nat \<Rightarrow> library \<Rightarrow> library" where
  "WaveSurfer_destroy i L =
     \<lparr>insts = modify i (\<lambda>x. x\<lparr>destroyed := True, micActive := False\<rparr>) (insts L),
      calls = calls L @ [Destroy i]\<rparr>"

definition WaveSurfer_setOptions :: "nat \<Rightarrow> options \<Rightarrow> library \<Rightarrow> library" where
  "WaveSurfer_setOptions i o' L =
     \<lparr>insts = modify i (\<lambda>x. x\<lparr>opts := assign (opts x) o'\<rparr>) (insts L),
      calls = calls L @ [SetOptions i o']\<rparr>"

definition registerPlugin :: "nat \<Rightarrow> library \<Rightarrow> library" where
  "registerPlugin i L =
     \<lparr>insts = modify i (\<lambda>x. x\<lparr>recordPlugin := True\<rparr>) (insts L),
      calls = calls L @ [RegisterPlugin i]\<rparr>"

definition RecordPlugin_startRecording :: "nat \<Rightarrow> mic_result \<Rightarrow> library \<Rightarrow> library" where
  "RecordPlugin_startRecording p r L =
     \<lparr>insts = (case r of
                 Granted \<Rightarrow> modify p (\<lambda>x. x\<lparr>micActive := True\<rparr>) (insts L)
               | Rejected e \<Rightarrow> insts L),
      calls = calls L @ [StartRecording p r]\<rparr>"

definition RecordPlugin_stopRecording :: "nat \<Rightarrow> library \<Rightarrow> library" where
  "RecordPlugin_stopRecording p L =
     \<lparr>insts = modify p (\<lambda>x. x\<lparr>micActive := False\<rparr>) (insts L),
      calls = calls L @ [StopRecording p]\<rparr>"

subsection \<open>The panel\<close>

record toast =
  title :: string
  description :: string
  variant :: "string option"

record panel =
  containerRef :: bool
  wavesurferRef :: "nat option"
  recordRef :: "nat option"
  isRecording :: bool
  currentTheme :: theme
  currentWaveform :: waveform
  lib :: library
  toasts :: "toast list"
  console :: "string list"

text \<open>The first render: the refs are null, the state has its initial values.\<close>

definition initial :: "bool \<Rightarrow> panel" where
  "initial c = \<lparr>containerRef = c, wavesurferRef = None, recordRef = None,
     isRecording = False, currentTheme = classic, currentWaveform = bars,
     lib = \<lparr>insts = [], calls = []\<rparr>, toasts = [], console = []\<rparr>"

definition recording_started :: toast where
  "recording_started = \<lparr>title = ''Recording started'',
     description = ''Your microphone is now active'', variant = None\<rparr>"

definition permission_denied :: toast where
  "permission_denied = \<lparr>title = ''Permission denied'',
     description = ''Please allow microphone access to use this feature'',
     variant = Some ''destructive''\<rparr>"

definition recording_stopped :: toast where
  "recording_stopped = \<lparr>title = ''Recording stopped'',
     description = ''Your microphone is now inactive'', variant = None\<rparr>"

definition show_toast :: "toast \<Rightarrow> panel \<Rightarrow> panel" where
  "show_toast t s = s\<lparr>toasts := toasts s @ [t]\<rparr>"

subsection \<open>The richer variant\<close>

text \<open>The object literal passed to \<open>WaveSurfer.create\<close> in \<open>initializeWaveSurfer\<close>.\<close>

definition create_options :: "theme \<Rightarrow> waveform \<Rightarrow> options" where
  "create_options t w =
     assign (no_options\<lparr>container := Some (),
               waveColor := waveColor (visualizerThemes t),
               progressColor := progressColor (visualizerThemes t),
               cursorColor := cursorColor (visualizerThemes t),
               height := Some 200\<rparr>)
            (waveformTypes w)"

text \<open>
  \<open>wavesurferRef.current.destroy()\<close> under its null check; the ref keeps pointing at the
  destroyed instance.
\<close>

definition destroy_current :: "panel \<Rightarrow> panel" where
  "destroy_current s =
     (case wavesurferRef s of
        None \<Rightarrow> s
      | Some i \<Rightarrow> s\<lparr>lib := WaveSurfer_destroy i (lib s)\<rparr>)"

text \<open>
  \<open>initializeWaveSurfer\<close>. The restart at its end is not awaited: its promise either
  resolves, and nothing more happens, or rejects into the \<open>catch\<close> callback.
\<close>

definition initializeWaveSurfer :: "mic_result \<Rightarrow> panel \<Rightarrow> panel" where
  "initializeWaveSurfer r s =
     (if \<not> containerRef s then s
      else
        let s1 = destroy_current s;
            (i, L) = WaveSurfer_create
                       (create_options (currentTheme s) (currentWaveform s)) (lib s1);
            s2 = s1\<lparr>wavesurferRef := Some i, lib := L\<rparr>;
            s3 = s2\<lparr>recordRef := Some i, lib := registerPlugin i (lib s2)\<rparr>
        in if isRecording s then
             (let s4 = s3\<lparr>lib := RecordPlugin_startRecording i r (lib s3)\<rparr>
              in case r of
                   Granted \<Rightarrow> s4
                 | Rejected e \<Rightarrow>
                     s4\<lparr>console := console s4 @ [''Error restarting recording:''],
                        isRecording := False\<rparr>)
           else s3)"

text \<open>The effect on \<open>[currentTheme]\<close>; the object passed to \<open>setOptions\<close> has two keys.\<close>

definition theme_options :: "theme \<Rightarrow> options" where
  "theme_options t = no_options\<lparr>waveColor := waveColor (visualizerThemes t),
     progressColor := progressColor (visualizerThemes t)\<rparr>"

definition theme_effect :: "panel \<Rightarrow> panel" where
  "theme_effect s =
     (case wavesurferRef s of
        None \<Rightarrow> s
      | Some i \<Rightarrow>
          s\<lparr>lib := WaveSurfer_setOptions i (theme_options (currentTheme s)) (lib s)\<rparr>)"

text \<open>
  \<open>startRecording\<close>: a null \<open>recordRef.current\<close> throws a TypeError inside the \<open>try\<close>, and
  the \<open>catch\<close> treats every error alike.
\<close>

definition startRecording :: "mic_result \<Rightarrow> panel \<Rightarrow> panel" where
  "startRecording r s =
     (case recordRef s of
        None \<Rightarrow> show_toast permission_denied s
      | Some p \<Rightarrow>
          (let s1 = s\<lparr>lib := RecordPlugin_startRecording p r (lib s)\<rparr>
           in case r of
                Granted \<Rightarrow> show_toast recording_started (s1\<lparr>isRecording := True\<rparr>)
              | Rejected e \<Rightarrow> show_toast permission_denied s1))"

text \<open>
  \<open>stopRecording\<close> has no \<open>try\<close>: with a null \<open>recordRef.current\<close> its promise rejects
  before anything is changed.
\<close>

definition stopRecording :: "panel \<Rightarrow> js_error + panel" where
  "stopRecording s =
     (case recordRef s of
        None \<Rightarrow> Inl TypeError
      | Some p \<Rightarrow>
          Inr (show_toast recording_stopped
                 (s\<lparr>lib := RecordPlugin_stopRecording p (lib s), isRecording := False\<rparr>)))"

text \<open>
  The state setters with the re-render they cause. Setting a state to the value it has
  causes no re-render. A changed \<open>currentWaveform\<close> re-runs the first effect: the cleanup
  of the previous run, then \<open>initializeWaveSurfer\<close> of the new render. A changed
  \<open>currentTheme\<close> re-runs the second effect.
\<close>

definition setCurrentWaveform :: "waveform \<Rightarrow> mic_result \<Rightarrow> panel \<Rightarrow> panel" where
  "setCurrentWaveform w r s =
     (if w = currentWaveform s then s
      else initializeWaveSurfer r (destroy_current (s\<lparr>currentWaveform := w\<rparr>)))"

definition setCurrentTheme :: "theme \<Rightarrow> panel \<Rightarrow> panel" where
  "setCurrentTheme t s =
     (if t = currentTheme s then s else theme_effect (s\<lparr>currentTheme := t\<rparr>))"

text \<open>
  \<open>handleWaveformChange\<close>: when \<open>stopRecording\<close> rejects, the \<open>then\<close> callback does not run.
\<close>

definition handleWaveformChange :: "waveform \<Rightarrow> mic_result \<Rightarrow> panel \<Rightarrow> panel" where
  "handleWaveformChange w r s =
     (if isRecording s then
        (case stopRecording s of
           Inl e \<Rightarrow> s
         | Inr s' \<Rightarrow> setCurrentWaveform w r s')
      else setCurrentWaveform w r s)"

text \<open>
  The button under the waveform: \<open>onClick={isRecording ? stopRecording : startRecording}\<close>.
  A rejected \<open>stopRecording\<close> is caught by nobody and leaves the panel as it was.
\<close>

definition toggleRecording :: "mic_result \<Rightarrow> panel \<Rightarrow> panel" where
  "toggleRecording r s =
     (if isRecording s then (case stopRecording s of Inl e \<Rightarrow> s | Inr s' \<Rightarrow> s')
      else startRecording r s)"

text \<open>
  Mounting runs both effects in order, in a render where \<open>isRecording\<close> is false, so no
  answer of the microphone is read; unmounting runs the cleanup of the first effect.
\<close>

definition mount :: "panel \<Rightarrow> panel" where
  "mount s = theme_effect (initializeWaveSurfer Granted s)"

definition unmount :: "panel \<Rightarrow> panel" where
  "unmount s = destroy_current s"

text \<open>
  What the user can do with a mounted panel, and what the microphone answers. The
  container div is rendered unconditionally, so its ref is set when the effects of the
  first render run.
\<close>

datatype event =
    SelectTheme theme
  | ClickRecord mic_result
  | ClickWaveform waveform mic_result

fun step :: "panel \<Rightarrow> event \<Rightarrow> panel" where
  "step s (SelectTheme t) = setCurrentTheme t s"
| "step s (ClickRecord r) = toggleRecording r s"
| "step s (ClickWaveform w r) = handleWaveformChange w r s"

definition run :: "event list \<Rightarrow> panel" where
  "run evs = foldl step (mount (initial True)) evs"

subsection \<open>The simpler variant\<close>

text \<open>
  The first effect has no dependencies: it creates the instance once, with the bar
  shape written out, and its cleanup destroys it. The second effect, \<open>startRecording\<close>
  and \<open>stopRecording\<close> are the same text as in the richer variant.
\<close>

definition simple_create_options :: "theme \<Rightarrow> options" where
  "simple_create_options t =
     no_options\<lparr>container := Some (),
       waveColor := waveColor (visualizerThemes t),
       progressColor := progressColor (visualizerThemes t),
       cursorColor := cursorColor (visualizerThemes t),
       height := Some 200, barWidth := Some 2, barGap := Some 3, barRadius := Some 3\<rparr>"

definition simple_init :: "panel \<Rightarrow> panel" where
  "simple_init s =
     (if \<not> containerRef s then s
      else
        let (i, L) = WaveSurfer_create (simple_create_options (currentTheme s)) (lib s);
            s2 = s\<lparr>wavesurferRef := Some i, lib := L\<rparr>
        in s2\<lparr>recordRef := Some i, lib := registerPlugin i (lib s2)\<rparr>)"

definition simple_mount :: "panel \<Rightarrow> panel" where
  "simple_mount s = theme_effect (simple_init s)"

definition simple_unmount :: "panel \<Rightarrow> panel" where
  "simple_unmount s = destroy_current s"

datatype simple_event =
    SimpleSelectTheme theme
  | SimpleClickRecord mic_result

fun simple_step :: "panel \<Rightarrow> simple_event \<Rightarrow> panel" where
  "simple_step s (SimpleSelectTheme t) = setCurrentTheme t s"
| "simple_step s (SimpleClickRecord r) = toggleRecording r s"

definition simple_run :: "simple_event list \<Rightarrow> panel" where
  "simple_run evs = foldl simple_step (simple_mount (initial True)) evs"

subsection \<open>Observations\<close>

text \<open>The keys present in an options object.\<close>

definition present_keys :: "options \<Rightarrow> string list" where
  "present_keys o' =
     (if container o' = None then [] else [''container'']) @
     (if waveColor o' = None then [] else [''waveColor'']) @
     (if progressColor o' = None then [] else [''progressColor'']) @
     (if cursorColor o' = None then [] else [''cursorColor'']) @
     (if height o' = None then [] else [''height'']) @
     (if barWidth o' = None then [] else [''barWidth'']) @
     (if barGap o' = None then [] else [''barGap'']) @
     (if barRadius o' = None then [] else [''barRadius'']) @
     (if wave o' = None then [] else [''wave''])"

text \<open>
  The instances alive after a list of calls, and whether at most one was alive at every
  point of the list.
\<close>

fun track :: "nat list \<Rightarrow> call \<Rightarrow> nat list" where
  "track l (Create i o') = l @ [i]"
| "track l (Destroy i) = removeAll i l"
| "track l c = l"

fun at_most_one_live :: "nat list \<Rightarrow> call list \<Rightarrow> bool" where
  "at_most_one_live l [] = (length l \<le> 1)"
| "at_most_one_live l (c # cs) = (length l \<le> 1 \<and> at_most_one_live (track l c) cs)"

definition live_ids :: "call list \<Rightarrow> nat list" where
  "live_ids cs = foldl track [] cs"

text \<open>The instances of the store that have not been destroyed.\<close>

definition live :: "ws_instance list \<Rightarrow> nat" where
  "live xs = length (filter (\<lambda>x. \<not> destroyed x) xs)"

text \<open>The calls to \<open>setOptions\<close> and the objects they were given.\<close>

fun is_SetOptions :: "call \<Rightarrow> bool" where
  "is_SetOptions (SetOptions i o') = True"
| "is_SetOptions c = False"

fun setOptions_args :: "call list \<Rightarrow> options list" where
  "setOptions_args [] = []"
| "setOptions_args (SetOptions i o' # cs) = o' # setOptions_args cs"
| "setOptions_args (c # cs) = setOptions_args cs"

definition only_colors_set :: "panel \<Rightarrow> bool" where
  "only_colors_set s =
     list_all (\<lambda>o'. present_keys o' = [''waveColor'', ''progressColor''])
       (setOptions_args (calls (lib s)))"





text \<open>
  What a panel holds besides the options of its instances: the recording state, the two
  refs, and of every instance whether it is destroyed, has the record plugin and is
  capturing.
\<close>

definition recording_view ::
  "panel \<Rightarrow> bool \<times> nat option \<times> nat option \<times> (bool \<times> bool \<times> bool) list" where
  "recording_view s =
     (isRecording s, wavesurferRef s, recordRef s,
      map (\<lambda>x. (destroyed x, recordPlugin x, micActive x)) (insts (lib s)))"

text \<open>The wave and progress colors of the instance \<open>wavesurferRef\<close> points at.\<close>

definition current_colors :: "panel \<Rightarrow> (string option \<times> string option) option" where
  "current_colors s =
     (case wavesurferRef s of
        None \<Rightarrow> None
      | Some i \<Rightarrow>
          if i < length (insts (lib s))
          then Some (waveColor (opts (insts (lib s) ! i)),
                     progressColor (opts (insts (lib s) ! i)))
          else None)"

text \<open>Theme buttons clicked one after another.\<close>

definition select_themes :: "theme list \<Rightarrow> panel \<Rightarrow> panel" where
  "select_themes ts s = foldl (\<lambda>s t. setCurrentTheme t s) s ts"

text \<open>
  The shape of a mounted panel, in both variants: the newest instance is the one both
  refs point at and the only one alive, it carries the colors of the current theme, and
  its plugin captures exactly when the panel says it is recording.
\<close>

definition mounted_with :: "panel \<Rightarrow> ws_instance list \<Rightarrow> ws_instance \<Rightarrow> bool" where
  "mounted_with s xs x =
     (insts (lib s) = xs @ [x] \<and> list_all destroyed xs \<and> \<not> destroyed x
      \<and> list_all (\<lambda>y. \<not> micActive y) xs \<and> micActive x = isRecording s
      \<and> wavesurferRef s = Some (length xs) \<and> recordRef s = Some (length xs)
      \<and> containerRef s
      \<and> waveColor (opts x) = waveColor (visualizerThemes (currentTheme s))
      \<and> progressColor (opts x) = progressColor (visualizerThemes (currentTheme s))
      \<and> live_ids (calls (lib s)) = [length xs]
      \<and> at_most_one_live [] (calls (lib s)))"

definition mounted :: "panel \<Rightarrow> bool" where
  "mounted s = (\<exists>xs x. mounted_with s xs x)"

section \<open>Properties\<close>

subsection \<open>Unfolding, the instance store and the call list\<close>

lemmas lib_defs = WaveSurfer_create_def WaveSurfer_destroy_def WaveSurfer_setOptions_def
  registerPlugin_def RecordPlugin_startRecording_def RecordPlugin_stopRecording_def

lemmas opt_defs = create_options_def simple_create_options_def theme_options_def
  assign_def override_def no_options_def

lemmas panel_defs = initializeWaveSurfer_def destroy_current_def theme_effect_def
  startRecording_def stopRecording_def setCurrentWaveform_def setCurrentTheme_def
  handleWaveformChange_def toggleRecording_def mount_def unmount_def simple_init_def
  simple_mount_def simple_unmount_def show_toast_def initial_def

lemma length_modify [simp]: "length (modify i f xs) = length xs"
  by (induction i f xs rule: modify.induct) simp_all

lemma modify_snoc_last [simp]: "modify (length xs) f (xs @ [x]) = xs @ [f x]"
  by (induction xs) simp_all

lemma nth_modify_same: "i < length xs \<Longrightarrow> modify i f xs ! i = f (xs ! i)"
  by (induction i f xs rule: modify.induct) simp_all

lemma map_modify_frame: "(\<And>x. g (f x) = g x) \<Longrightarrow> map g (modify i f xs) = map g xs"
  by (induction i f xs rule: modify.induct) simp_all

lemma at_most_one_live_append:
  "at_most_one_live l (cs @ ds)
   = (at_most_one_live l cs \<and> at_most_one_live (foldl track l cs) ds)"
proof (induction cs arbitrary: l)
  case Nil
  show ?case by (cases ds) auto
next
  case (Cons c cs)
  then show ?case by auto
qed

lemma at_most_one_live_ids:
  "at_most_one_live [] (cs @ ds)
   = (at_most_one_live [] cs \<and> at_most_one_live (live_ids cs) ds)"
  by (simp add: at_most_one_live_append live_ids_def)

lemma live_ids_append: "live_ids (cs @ ds) = foldl track (live_ids cs) ds"
  by (simp add: live_ids_def)

lemma setOptions_args_append:
  "setOptions_args (cs @ ds) = setOptions_args cs @ setOptions_args ds"
  by (induction cs rule: setOptions_args.induct) simp_all

lemma waveformTypes_shape_only:
  "waveColor (waveformTypes w) = None" "progressColor (waveformTypes w) = None"
  "cursorColor (waveformTypes w) = None" "container (waveformTypes w) = None"
  "height (waveformTypes w) = None"
  by (cases w; simp add: no_options_def)+

lemma present_keys_theme_options:
  "present_keys (theme_options t) = [''waveColor'', ''progressColor'']"
  by (cases t) (simp_all add: present_keys_def theme_options_def no_options_def)

subsection \<open>No handler shows a toast but the two recording actions\<close>

lemma toasts_initializeWaveSurfer: "toasts (initializeWaveSurfer r s) = toasts s"
  by (simp add: initializeWaveSurfer_def destroy_current_def lib_defs Let_def
      split: option.split mic_result.split)

lemma toasts_setCurrentWaveform: "toasts (setCurrentWaveform w r s) = toasts s"
  by (simp add: setCurrentWaveform_def toasts_initializeWaveSurfer destroy_current_def
      split: option.split)

subsection \<open>Every mounted panel keeps its shape\<close>

lemma mountedI: "mounted_with s xs x \<Longrightarrow> mounted s"
  by (auto simp: mounted_def)

lemma mounted_mount: "mounted (mount (initial True))"
proof -
  have "mounted_with (mount (initial True)) []
          \<lparr>opts = assign (create_options classic bars) (theme_options classic),
           destroyed = False, recordPlugin = True, micActive = False\<rparr>"
    by (simp add: mounted_with_def panel_defs lib_defs Let_def opt_defs live_ids_def)
  then show ?thesis by (rule mountedI)
qed

lemma mounted_simple_mount: "mounted (simple_mount (initial True))"
proof -
  have "mounted_with (simple_mount (initial True)) []
          \<lparr>opts = assign (simple_create_options classic) (theme_options classic),
           destroyed = False, recordPlugin = True, micActive = False\<rparr>"
    by (simp add: mounted_with_def panel_defs lib_defs Let_def opt_defs live_ids_def)
  then show ?thesis by (rule mountedI)
qed

lemma mounted_setCurrentTheme:
  assumes "mounted s"
  shows "mounted (setCurrentTheme t s)"
proof -
  from assms obtain xs x where i: "mounted_with s xs x"
    by (auto simp: mounted_def)
  let ?x = "if t = currentTheme s then x else x\<lparr>opts := assign (opts x) (theme_options t)\<rparr>"
  have "mounted_with (setCurrentTheme t s) xs ?x"
    using i
    by (cases t; simp add: mounted_with_def setCurrentTheme_def theme_effect_def
        WaveSurfer_setOptions_def at_most_one_live_ids live_ids_append opt_defs)
  then show ?thesis by (rule mountedI)
qed

lemma mounted_startRecording:
  assumes "mounted s"
  shows "mounted (startRecording r s)"
proof -
  from assms obtain xs x where i: "mounted_with s xs x"
    by (auto simp: mounted_def)
  let ?x = "case r of Granted \<Rightarrow> x\<lparr>micActive := True\<rparr> | Rejected e \<Rightarrow> x"
  have "mounted_with (startRecording r s) xs ?x"
    using i
    by (cases r; simp add: mounted_with_def startRecording_def show_toast_def
        RecordPlugin_startRecording_def at_most_one_live_ids live_ids_append Let_def)
  then show ?thesis by (rule mountedI)
qed

lemma mounted_stopRecording:
  assumes "mounted s"
  shows "\<exists>s'. stopRecording s = Inr s' \<and> mounted s' \<and> \<not> isRecording s'"
proof -
  from assms obtain xs x where i: "mounted_with s xs x"
    by (auto simp: mounted_def)
  let ?s = "show_toast recording_stopped
              (s\<lparr>lib := RecordPlugin_stopRecording (length xs) (lib s), isRecording := False\<rparr>)"
  have r: "stopRecording s = Inr ?s"
    using i by (simp add: mounted_with_def stopRecording_def)
  have "mounted_with ?s xs (x\<lparr>micActive := False\<rparr>)"
    using i
    by (simp add: mounted_with_def show_toast_def RecordPlugin_stopRecording_def
        at_most_one_live_ids live_ids_append)
  then have "mounted ?s" by (rule mountedI)
  with r show ?thesis by (simp add: show_toast_def)
qed

lemma mounted_setCurrentWaveform:
  assumes "mounted s" and "\<not> isRecording s"
  shows "mounted (setCurrentWaveform w r s)"
proof (cases "w = currentWaveform s")
  case True
  with assms show ?thesis by (simp add: setCurrentWaveform_def)
next
  case False
  from assms obtain xs x where i: "mounted_with s xs x"
    by (auto simp: mounted_def)
  have "mounted_with (setCurrentWaveform w r s)
          (xs @ [x\<lparr>destroyed := True, micActive := False\<rparr>])
          \<lparr>opts = create_options (currentTheme s) w, destroyed = False,
           recordPlugin = True, micActive = False\<rparr>"
    using i False assms(2)
    by (simp add: mounted_with_def setCurrentWaveform_def initializeWaveSurfer_def
        destroy_current_def lib_defs Let_def at_most_one_live_ids live_ids_append
        create_options_def assign_def override_def no_options_def waveformTypes_shape_only)
  then show ?thesis by (rule mountedI)
qed

lemma mounted_toggleRecording:
  assumes "mounted s"
  shows "mounted (toggleRecording r s)"
proof -
  from mounted_stopRecording [OF assms] obtain s' where
    "stopRecording s = Inr s'" "mounted s'" by blast
  with assms show ?thesis
    by (simp add: toggleRecording_def mounted_startRecording)
qed

lemma mounted_handleWaveformChange:
  assumes "mounted s"
  shows "mounted (handleWaveformChange w r s)"
proof -
  from mounted_stopRecording [OF assms] obtain s' where
    "stopRecording s = Inr s'" "mounted s'" "\<not> isRecording s'" by blast
  with assms show ?thesis
    by (simp add: handleWaveformChange_def mounted_setCurrentWaveform)
qed

lemma mounted_step: "mounted s \<Longrightarrow> mounted (step s e)"
  by (cases e)
    (simp_all add: mounted_setCurrentTheme mounted_toggleRecording mounted_handleWaveformChange)

lemma mounted_simple_step: "mounted s \<Longrightarrow> mounted (simple_step s e)"
  by (cases e) (simp_all add: mounted_setCurrentTheme mounted_toggleRecording)

lemma mounted_foldl: "mounted s \<Longrightarrow> mounted (foldl step s evs)"
  by (induction evs arbitrary: s) (simp_all add: mounted_step)

lemma mounted_simple_foldl: "mounted s \<Longrightarrow> mounted (foldl simple_step s evs)"
  by (induction evs arbitrary: s) (simp_all add: mounted_simple_step)

lemma mounted_run: "mounted (run evs)"
  by (simp add: run_def mounted_foldl mounted_mount)

lemma mounted_simple_run: "mounted (simple_run evs)"
  by (simp add: simple_run_def mounted_simple_foldl mounted_simple_mount)

text \<open>
  In particular the record plugin exists in every state a mounted panel of either
  variant can reach, so \<open>startRecording\<close> and \<open>stopRecording\<close> always find it.
\<close>

lemma mounted_has_plugin:
  assumes "mounted s"
  shows "\<exists>p. recordRef s = Some p \<and> p < length (insts (lib s))"
proof -
  from assms obtain xs x where "mounted_with s xs x"
    by (auto simp: mounted_def)
  then show ?thesis by (simp add: mounted_with_def)
qed

lemma run_has_plugin:
  "\<exists>p. recordRef (run evs) = Some p \<and> p < length (insts (lib (run evs)))"
  by (rule mounted_has_plugin [OF mounted_run])

lemma simple_run_has_plugin:
  "\<exists>p. recordRef (simple_run evs) = Some p \<and> p < length (insts (lib (simple_run evs)))"
  by (rule mounted_has_plugin [OF mounted_simple_run])

subsection \<open>The call list carries only the two theme colors to setOptions\<close>

lemma only_colors_destroy_current: "only_colors_set s \<Longrightarrow> only_colors_set (destroy_current s)"
  by (simp add: only_colors_set_def destroy_current_def WaveSurfer_destroy_def
      setOptions_args_append split: option.split)

lemma only_colors_initializeWaveSurfer:
  "only_colors_set s \<Longrightarrow> only_colors_set (initializeWaveSurfer r s)"
  by (simp add: only_colors_set_def initializeWaveSurfer_def destroy_current_def lib_defs
      Let_def setOptions_args_append split: option.split mic_result.split)

lemma only_colors_simple_init: "only_colors_set s \<Longrightarrow> only_colors_set (simple_init s)"
  by (simp add: only_colors_set_def simple_init_def lib_defs Let_def setOptions_args_append)

lemma only_colors_theme_effect: "only_colors_set s \<Longrightarrow> only_colors_set (theme_effect s)"
  by (simp add: only_colors_set_def theme_effect_def WaveSurfer_setOptions_def
      setOptions_args_append present_keys_theme_options split: option.split)

lemma only_colors_setCurrentTheme:
  "only_colors_set s \<Longrightarrow> only_colors_set (setCurrentTheme t s)"
  using only_colors_theme_effect [of "s\<lparr>currentTheme := t\<rparr>"]
  by (simp add: setCurrentTheme_def only_colors_set_def)

lemma only_colors_startRecording:
  "only_colors_set s \<Longrightarrow> only_colors_set (startRecording r s)"
  by (simp add: only_colors_set_def startRecording_def show_toast_def
      RecordPlugin_startRecording_def Let_def setOptions_args_append
      split: option.split mic_result.split)

lemma only_colors_stopRecording:
  "only_colors_set s \<Longrightarrow> stopRecording s = Inr s' \<Longrightarrow> only_colors_set s'"
  by (auto simp: only_colors_set_def stopRecording_def show_toast_def
      RecordPlugin_stopRecording_def setOptions_args_append split: option.splits)

lemma only_colors_setCurrentWaveform:
  "only_colors_set s \<Longrightarrow> only_colors_set (setCurrentWaveform w r s)"
  using only_colors_initializeWaveSurfer
    [OF only_colors_destroy_current, of "s\<lparr>currentWaveform := w\<rparr>" r]
  by (simp add: setCurrentWaveform_def only_colors_set_def)

lemma only_colors_toggleRecording:
  "only_colors_set s \<Longrightarrow> only_colors_set (toggleRecording r s)"
  by (auto simp: toggleRecording_def only_colors_startRecording only_colors_stopRecording
      split: sum.split)

lemma only_colors_handleWaveformChange:
  "only_colors_set s \<Longrightarrow> only_colors_set (handleWaveformChange w r s)"
  by (auto simp: handleWaveformChange_def only_colors_setCurrentWaveform
      dest: only_colors_stopRecording split: sum.split)

lemma only_colors_step: "only_colors_set s \<Longrightarrow> only_colors_set (step s e)"
  by (cases e) (simp_all add: only_colors_setCurrentTheme only_colors_toggleRecording
      only_colors_handleWaveformChange)

lemma only_colors_simple_step: "only_colors_set s \<Longrightarrow> only_colors_set (simple_step s e)"
  by (cases e) (simp_all add: only_colors_setCurrentTheme only_colors_toggleRecording)

lemma only_colors_foldl: "only_colors_set s \<Longrightarrow> only_colors_set (foldl step s evs)"
  by (induction evs arbitrary: s) (simp_all add: only_colors_step)

lemma only_colors_simple_foldl:
  "only_colors_set s \<Longrightarrow> only_colors_set (foldl simple_step s evs)"
  by (induction evs arbitrary: s) (simp_all add: only_colors_simple_step)

lemma only_colors_initial: "only_colors_set (initial c)"
  by (simp add: only_colors_set_def initial_def)

lemma only_colors_run: "only_colors_set (run evs)"
  by (simp add: run_def mount_def only_colors_foldl only_colors_theme_effect
      only_colors_initializeWaveSurfer only_colors_initial)

lemma only_colors_simple_run: "only_colors_set (simple_run evs)"
  by (simp add: simple_run_def simple_mount_def only_colors_simple_foldl
      only_colors_theme_effect only_colors_simple_init only_colors_initial)

subsection \<open>What a theme selection touches\<close>

lemma view_setCurrentTheme: "recording_view (setCurrentTheme t s) = recording_view s"
  by (simp add: recording_view_def setCurrentTheme_def theme_effect_def
      WaveSurfer_setOptions_def map_modify_frame split: option.split)

lemma other_calls_setCurrentTheme:
  "filter (\<lambda>c. \<not> is_SetOptions c) (calls (lib (setCurrentTheme t s)))
   = filter (\<lambda>c. \<not> is_SetOptions c) (calls (lib s))"
  by (simp add: setCurrentTheme_def theme_effect_def WaveSurfer_setOptions_def
      split: option.split)

lemma colors_setCurrentTheme:
  assumes "mounted s"
  shows "current_colors (setCurrentTheme t s)
     = Some (waveColor (visualizerThemes t), progressColor (visualizerThemes t))"
proof -
  from assms obtain xs x where i: "mounted_with s xs x"
    by (auto simp: mounted_def)
  show ?thesis
  proof (cases "t = currentTheme s")
    case True
    then show ?thesis
      using i by (simp add: mounted_with_def current_colors_def setCurrentTheme_def)
  next
    case False
    then show ?thesis
      using i
      by (cases t) (simp_all add: mounted_with_def current_colors_def setCurrentTheme_def
          theme_effect_def WaveSurfer_setOptions_def opt_defs)
  qed
qed

lemma other_options_setCurrentTheme:
  "map (\<lambda>x. (opts x)\<lparr>waveColor := None, progressColor := None\<rparr>)
     (insts (lib (setCurrentTheme t s)))
   = map (\<lambda>x. (opts x)\<lparr>waveColor := None, progressColor := None\<rparr>) (insts (lib s))"
  by (simp add: setCurrentTheme_def theme_effect_def WaveSurfer_setOptions_def
      map_modify_frame opt_defs split: option.split)

lemma other_options_select_themes:
  "map (\<lambda>x. (opts x)\<lparr>waveColor := None, progressColor := None\<rparr>)
     (insts (lib (select_themes ts s)))
   = map (\<lambda>x. (opts x)\<lparr>waveColor := None, progressColor := None\<rparr>) (insts (lib s))"
  unfolding select_themes_def
  by (induction ts arbitrary: s) (simp_all add: other_options_setCurrentTheme)

subsection \<open>Teardown\<close>

lemma mounted_teardown:
  assumes "mounted s"
  shows "at_most_one_live [] (calls (lib (destroy_current s)))
     \<and> live_ids (calls (lib (destroy_current s))) = []
     \<and> live (insts (lib (destroy_current s))) = 0
     \<and> live (insts (lib s)) = 1
     \<and> map Some (live_ids (calls (lib s))) = [wavesurferRef s]"
proof -
  from assms obtain xs x where i: "mounted_with s xs x"
    by (auto simp: mounted_def)
  then have "list_all destroyed xs" by (simp add: mounted_with_def)
  then have f: "filter (\<lambda>x. \<not> destroyed x) xs = []"
    by (induction xs) simp_all
  show ?thesis
    using i f
    by (simp add: mounted_with_def destroy_current_def WaveSurfer_destroy_def
        at_most_one_live_ids live_ids_append live_def)
qed

subsection \<open>Failures and their notifications\<close>



















section \<open>The claims\<close>

text \<open>
  C1. The claim: a waveform-style change requested while recording destroys and recreates
  the instance and recording is resumed afterwards. The code at that input: after
  mounting, a granted start and a click on "line", the old instance is destroyed and a
  new one created, but \<open>stopRecording\<close> has set the recording state to false before the
  effect runs \<open>initializeWaveSurfer\<close>, whose restart is therefore skipped: no second
  \<open>startRecording\<close> reaches the library, the new plugin does not capture, and the panel
  ends not recording, with the "Recording stopped" notification as the last one.
\<close>

theorem waveform_change_while_recording_ends_stopped:
  "isRecording (run [ClickRecord Granted])
   \<and> \<not> isRecording (run [ClickRecord Granted, ClickWaveform line Granted])
   \<and> calls (lib (run [ClickRecord Granted, ClickWaveform line Granted])) =
       [Create 0 (create_options classic bars), RegisterPlugin 0,
        SetOptions 0 (theme_options classic), StartRecording 0 Granted, StopRecording 0,
        Destroy 0, Destroy 0, Create 1 (create_options classic line), RegisterPlugin 1]
   \<and> map micActive (insts (lib (run [ClickRecord Granted, ClickWaveform line Granted])))
       = [False, False]
   \<and> toasts (run [ClickRecord Granted, ClickWaveform line Granted])
       = [recording_started, recording_stopped]"
  by (simp add: run_def panel_defs lib_defs Let_def)

text \<open>
  The same in general: after a click on any waveform button, in any state a mounted
  panel can reach and whatever the microphone would answer, the panel is not recording.
\<close>

lemma waveform_click_never_leaves_recording:
  "\<not> isRecording (step (run evs) (ClickWaveform w r))"
proof -
  from mounted_stopRecording [OF mounted_run] obtain s' where
    s': "stopRecording (run evs) = Inr s'" "\<not> isRecording s'" by blast
  have n: "\<not> isRecording (setCurrentWaveform w r s)" if "\<not> isRecording s" for s
    using that
    by (simp add: setCurrentWaveform_def initializeWaveSurfer_def destroy_current_def
        lib_defs Let_def split: option.split)
  show ?thesis
    using s' n by (simp add: handleWaveformChange_def)
qed


text \<open>
  The \<open>catch\<close> of the restart in \<open>initializeWaveSurfer\<close> is the one place of the component
  that would take a failure without a notification: it writes to the console and resets
  the recording state. It needs \<open>initializeWaveSurfer\<close> to run in a render where the
  panel is recording, which no sequence of clicks brings about; the empty console of
  every run above says as much.
\<close>

lemma restart_catch_only_logs:
  assumes "containerRef s" and "isRecording s"
  shows "toasts (initializeWaveSurfer (Rejected e) s) = toasts s
     \<and> console (initializeWaveSurfer (Rejected e) s)
         = console s @ [''Error restarting recording:'']
     \<and> \<not> isRecording (initializeWaveSurfer (Rejected e) s)"
  using assms
  by (simp add: toasts_initializeWaveSurfer initializeWaveSurfer_def destroy_current_def
      lib_defs Let_def split: option.split)

text \<open>
  C3. When the library's \<open>startRecording\<close> call fails, whatever the error,
  \<open>startRecording\<close> shows the "Permission denied" notification and leaves the recording
  state as it was (so false stays false); the refs and the instances are untouched too.
\<close>

theorem startRecording_rejected_keeps_state:
  "toasts (startRecording (Rejected e) s) = toasts s @ [permission_denied]
   \<and> isRecording (startRecording (Rejected e) s) = isRecording s
   \<and> insts (lib (startRecording (Rejected e) s)) = insts (lib s)
   \<and> wavesurferRef (startRecording (Rejected e) s) = wavesurferRef s
   \<and> recordRef (startRecording (Rejected e) s) = recordRef s"
  by (simp add: startRecording_def show_toast_def RecordPlugin_startRecording_def Let_def
      split: option.split)

text \<open>
  C4. Selecting a theme, in either variant, leaves the recording state, both refs and
  every instance's destroyed, plugin and capture flags as they were, and makes no call to
  the library other than \<open>setOptions\<close>: nothing is destroyed or created and the recording
  goes on. In every state a mounted panel can reach, the instance the panel holds has
  the wave and progress colors of the selected theme afterwards.
\<close>

theorem theme_selection_recolors_in_place:
  "recording_view (step s (SelectTheme t)) = recording_view s
   \<and> recording_view (simple_step s (SimpleSelectTheme t)) = recording_view s
   \<and> filter (\<lambda>c. \<not> is_SetOptions c) (calls (lib (step s (SelectTheme t))))
       = filter (\<lambda>c. \<not> is_SetOptions c) (calls (lib s))
   \<and> filter (\<lambda>c. \<not> is_SetOptions c) (calls (lib (simple_step s (SimpleSelectTheme t))))
       = filter (\<lambda>c. \<not> is_SetOptions c) (calls (lib s))
   \<and> current_colors (step (run evs) (SelectTheme t))
       = Some (waveColor (visualizerThemes t), progressColor (visualizerThemes t))
   \<and> current_colors (simple_step (simple_run evs') (SimpleSelectTheme t))
       = Some (waveColor (visualizerThemes t), progressColor (visualizerThemes t))"
  by (simp add: view_setCurrentTheme other_calls_setCurrentTheme
      colors_setCurrentTheme [OF mounted_run] colors_setCurrentTheme [OF mounted_simple_run])

text \<open>
  C5. When microphone access is granted, which needs a record plugin to ask,
  \<open>startRecording\<close> sets the recording state to true and shows the "Recording started"
  notification.
\<close>

theorem startRecording_granted_sets_recording:
  assumes "recordRef s = Some p"
  shows "isRecording (startRecording Granted s)
     \<and> toasts (startRecording Granted s) = toasts s @ [recording_started]
     \<and> calls (lib (startRecording Granted s)) = calls (lib s) @ [StartRecording p Granted]"
  using assms
  by (simp add: startRecording_def show_toast_def RecordPlugin_startRecording_def Let_def)

theorem startRecording_granted_sets_recording_witness:
  "recordRef (run []) = Some 0
   \<and> \<not> isRecording (run [])
   \<and> isRecording (startRecording Granted (run []))
   \<and> toasts (startRecording Granted (run [])) = toasts (run []) @ [recording_started]
   \<and> calls (lib (startRecording Granted (run [])))
       = calls (lib (run [])) @ [StartRecording 0 Granted]"
proof -
  have h: "recordRef (run []) = Some 0"
    by (simp add: run_def panel_defs lib_defs Let_def)
  have n: "\<not> isRecording (run [])"
    by (simp add: run_def panel_defs lib_defs Let_def)
  show ?thesis
    using h n startRecording_granted_sets_recording [OF h] by simp
qed

text \<open>
  C6. \<open>stopRecording\<close> on a panel whose record plugin exists resolves, with the plugin's
  capture stopped and the recording state false, whatever the recording state was.
\<close>

theorem stopRecording_resolves_not_recording:
  assumes "recordRef s = Some p" and "p < length (insts (lib s))"
  shows "\<exists>s'. stopRecording s = Inr s' \<and> \<not> isRecording s'
     \<and> \<not> micActive (insts (lib s') ! p)
     \<and> calls (lib s') = calls (lib s) @ [StopRecording p]"
  using assms
  by (simp add: stopRecording_def show_toast_def RecordPlugin_stopRecording_def
      nth_modify_same)

theorem stopRecording_resolves_not_recording_witness:
  "recordRef (run [ClickRecord Granted]) = Some 0
   \<and> 0 < length (insts (lib (run [ClickRecord Granted])))
   \<and> isRecording (run [ClickRecord Granted])
   \<and> (\<exists>s'. stopRecording (run [ClickRecord Granted]) = Inr s' \<and> \<not> isRecording s'
        \<and> \<not> micActive (insts (lib s') ! 0)
        \<and> calls (lib s') = calls (lib (run [ClickRecord Granted])) @ [StopRecording 0])"
proof -
  have h: "recordRef (run [ClickRecord Granted]) = Some 0"
    by (simp add: run_def panel_defs lib_defs Let_def)
  have l: "0 < length (insts (lib (run [ClickRecord Granted])))"
    by (simp add: run_def panel_defs lib_defs Let_def)
  have r: "isRecording (run [ClickRecord Granted])"
    by (simp add: run_def panel_defs lib_defs Let_def)
  show ?thesis
    using h l r stopRecording_resolves_not_recording [OF h l] by simp
qed

text \<open>
  C7. Over the whole life of a panel of either variant, from mounting through any
  clicks to unmounting, at most one instance is alive at every point of the calls made
  to the library, so each instance had been destroyed when its replacement was created.
  While mounted exactly one instance is alive, the one \<open>wavesurferRef\<close> points at; after
  unmounting none is.
\<close>

theorem at_most_one_instance_alive:
  "at_most_one_live [] (calls (lib (unmount (run evs))))
   \<and> live_ids (calls (lib (unmount (run evs)))) = []
   \<and> live (insts (lib (unmount (run evs)))) = 0
   \<and> live (insts (lib (run evs))) = 1
   \<and> map Some (live_ids (calls (lib (run evs)))) = [wavesurferRef (run evs)]
   \<and> at_most_one_live [] (calls (lib (simple_unmount (simple_run evs'))))
   \<and> live_ids (calls (lib (simple_unmount (simple_run evs')))) = []
   \<and> live (insts (lib (simple_unmount (simple_run evs')))) = 0
   \<and> live (insts (lib (simple_run evs'))) = 1
   \<and> map Some (live_ids (calls (lib (simple_run evs')))) = [wavesurferRef (simple_run evs')]"
  using mounted_teardown [OF mounted_run, of evs]
    mounted_teardown [OF mounted_simple_run, of evs']
  by (simp add: unmount_def simple_unmount_def)

text \<open>
  C8, as stated, fails at the style "line": its preset has neither a bar gap nor a bar
  corner radius.
\<close>

theorem line_preset_has_no_gap_or_radius:
  "barGap (waveformTypes line) = None \<and> barRadius (waveformTypes line) = None"
  by (simp add: no_options_def)

text \<open>
  C8, amended. The themes are exactly classic, neon and sunset, each a preset of exactly
  wave color, progress color and cursor color. The waveform styles are exactly bars,
  line, points and rounded; bars, points and rounded are presets of exactly bar width,
  bar gap, bar corner radius and the line-vs-bar mode, and line is a preset of bar width
  and the line-vs-bar mode only.
\<close>

theorem presets_enumerated:
  "set theme_keys = UNIV \<and> distinct theme_keys
   \<and> present_keys (visualizerThemes t) = [''waveColor'', ''progressColor'', ''cursorColor'']
   \<and> set waveform_keys = UNIV \<and> distinct waveform_keys
   \<and> present_keys (waveformTypes w) =
       (if w = line then [''barWidth'', ''wave'']
        else [''barWidth'', ''barGap'', ''barRadius'', ''wave''])"
proof -
  have "set theme_keys = UNIV"
    using theme.exhaust by (auto simp: theme_keys_def)
  moreover have "set waveform_keys = UNIV"
    using waveform.exhaust by (auto simp: waveform_keys_def)
  moreover have "present_keys (visualizerThemes t)
      = [''waveColor'', ''progressColor'', ''cursorColor'']"
    by (cases t) (simp_all add: present_keys_def no_options_def)
  moreover have "present_keys (waveformTypes w) =
       (if w = line then [''barWidth'', ''wave'']
        else [''barWidth'', ''barGap'', ''barRadius'', ''wave''])"
    by (cases w) (simp_all add: present_keys_def no_options_def)
  ultimately show ?thesis
    by (simp add: theme_keys_def waveform_keys_def)
qed

text \<open>
  C9. The object a theme change passes to \<open>setOptions\<close> has the keys waveColor and
  progressColor only. Through any sequence of theme selections, from any panel, the
  cursor color of every instance, and every other option but those two, stays what it
  was. And in every state a mounted panel of either variant can reach, every
  \<open>setOptions\<close> call made so far carried those two keys only.
\<close>

theorem theme_change_never_sets_cursorColor:
  "present_keys (theme_options t) = [''waveColor'', ''progressColor'']
   \<and> map (\<lambda>x. cursorColor (opts x)) (insts (lib (select_themes ts s)))
       = map (\<lambda>x. cursorColor (opts x)) (insts (lib s))
   \<and> map (\<lambda>x. (opts x)\<lparr>waveColor := None, progressColor := None\<rparr>)
         (insts (lib (select_themes ts s)))
       = map (\<lambda>x. (opts x)\<lparr>waveColor := None, progressColor := None\<rparr>) (insts (lib s))
   \<and> only_colors_set (run evs) \<and> only_colors_set (simple_run evs')"
proof -
  let ?f = "\<lambda>x. (opts x)\<lparr>waveColor := None, progressColor := None\<rparr>"
  have o: "map ?f (insts (lib (select_themes ts s))) = map ?f (insts (lib s))"
    by (rule other_options_select_themes)
  have "map (cursorColor \<circ> ?f) (insts (lib (select_themes ts s)))
      = map (cursorColor \<circ> ?f) (insts (lib s))"
    using arg_cong [OF o, of "map cursorColor"] by simp
  then have c: "map (\<lambda>x. cursorColor (opts x)) (insts (lib (select_themes ts s)))
       = map (\<lambda>x. cursorColor (opts x)) (insts (lib s))"
    by (simp add: comp_def)
  show ?thesis
    using o c
    by (simp add: present_keys_theme_options only_colors_run only_colors_simple_run)
qed

text \<open>
  C10. \<open>stopRecording\<close> on a panel whose record plugin exists sets the recording state
  to false and shows the "Recording stopped" notification, under no condition. A
  waveform-style change shows it exactly when the panel was recording, through the
  \<open>stopRecording\<close> it then calls, and shows nothing else.
\<close>

theorem stopRecording_always_notifies:
  assumes "recordRef s = Some p"
  shows "(\<exists>s'. stopRecording s = Inr s' \<and> \<not> isRecording s'
            \<and> toasts s' = toasts s @ [recording_stopped])
     \<and> toasts (handleWaveformChange w r s)
         = (if isRecording s then toasts s @ [recording_stopped] else toasts s)"
  using assms
  by (simp add: handleWaveformChange_def stopRecording_def show_toast_def
      toasts_setCurrentWaveform)

theorem stopRecording_always_notifies_witness:
  "recordRef (run [ClickRecord Granted]) = Some 0
   \<and> isRecording (run [ClickRecord Granted])
   \<and> (\<exists>s'. stopRecording (run [ClickRecord Granted]) = Inr s' \<and> \<not> isRecording s'
         \<and> toasts s' = [recording_started, recording_stopped])
   \<and> toasts (handleWaveformChange points Granted (run [ClickRecord Granted]))
       = [recording_started, recording_stopped]"
proof -
  have h: "recordRef (run [ClickRecord Granted]) = Some 0"
    by (simp add: run_def panel_defs lib_defs Let_def)
  have r: "isRecording (run [ClickRecord Granted])"
    by (simp add: run_def panel_defs lib_defs Let_def)
  have t: "toasts (run [ClickRecord Granted]) = [recording_started]"
    by (simp add: run_def panel_defs lib_defs Let_def)
  show ?thesis
    using h r t stopRecording_always_notifies [OF h, of points Granted] by simp
qed

end
